theory Spec2Isabelle
  imports Complex_Main "HOL-Library.Multiset"
begin

section \<open>Numbers, errors and inputs\<close>

text \<open>
  The backtest of \<^verbatim>\<open>src/function/backtest.py\<close> is a pipeline of pandas column operations.
  Numbers are modelled as exact reals; a column cell that pandas holds as NaN is \<open>None\<close>.
  There is no rounding, no overflow and no infinity in the model: the results below are
  about the arithmetic the code performs, not about the last bits of a double.
\<close>

type_synonym fl = "real option"

datatype error = ValueError | IndexError

text \<open>
  The function accepts "pd.Series or list" (its docstring). \<open>PyList\<close> is a Python list of
  numbers; \<open>PdSeries\<close> is a pandas Series of numbers that carries the default positional
  index \<open>0, 1, ..., n - 1\<close>.
\<close>

datatype py_seq = PyList "real list" | PdSeries "real list"

subsection \<open>Arithmetic on cells\<close>

definition fl_mul :: "fl \<Rightarrow> fl \<Rightarrow> fl" where
  "fl_mul a b =
     (case a of None \<Rightarrow> None
      | Some x \<Rightarrow> (case b of None \<Rightarrow> None | Some y \<Rightarrow> Some (x * y)))"

text \<open>
  Division of numpy floats does not raise: a zero divisor gives NaN or an infinity.
  The model has no infinities and writes \<open>None\<close> for every such non-finite quotient.
\<close>

definition real_div :: "real \<Rightarrow> real \<Rightarrow> fl" where
  "real_div x y = (if y = 0 then None else Some (x / y))"

definition fl_div :: "fl \<Rightarrow> fl \<Rightarrow> fl" where
  "fl_div a b =
     (case a of None \<Rightarrow> None
      | Some x \<Rightarrow> (case b of None \<Rightarrow> None | Some y \<Rightarrow> real_div x y))"

text \<open>\<^verbatim>\<open>a != b\<close>: NaN is unequal to everything.\<close>

definition fl_ne :: "fl \<Rightarrow> fl \<Rightarrow> bool" where
  "fl_ne a b =
     (case a of None \<Rightarrow> True
      | Some x \<Rightarrow> (case b of None \<Rightarrow> True | Some y \<Rightarrow> x \<noteq> y))"

section \<open>The pandas operations the backtest calls\<close>

text \<open>
  \<^verbatim>\<open>pd.DataFrame({'signals': signals, 'returns': returns})\<close>.
  Lists must have one length, else the constructor raises ValueError. Series are aligned
  on the union of their indexes: the shorter one is padded with NaN. A list beside a Series
  must have the length of the Series' index, else ValueError.
\<close>

definition pad :: "nat \<Rightarrow> real list \<Rightarrow> fl list" where
  "pad n xs = map Some xs @ replicate (n - length xs) None"

fun DataFrame :: "py_seq \<Rightarrow> py_seq \<Rightarrow> error + (fl list \<times> fl list)" where
  "DataFrame (PyList a) (PyList b) =
     (if length a \<noteq> length b then Inl ValueError else Inr (map Some a, map Some b))"
| "DataFrame (PdSeries a) (PdSeries b) =
     (let n = max (length a) (length b) in Inr (pad n a, pad n b))"
| "DataFrame (PdSeries a) (PyList b) =
     (if length b \<noteq> length a then Inl ValueError else Inr (map Some a, map Some b))"
| "DataFrame (PyList a) (PdSeries b) =
     (if length a \<noteq> length b then Inl ValueError else Inr (map Some a, map Some b))"

text \<open>\<^verbatim>\<open>col.shift(1)\<close>: every value moves one row down, the first row becomes NaN.\<close>

definition shift1 :: "fl list \<Rightarrow> fl list" where
  "shift1 xs = (if xs = [] then [] else None # butlast xs)"

text \<open>\<^verbatim>\<open>a * b\<close> on two columns of one frame: row by row.\<close>

definition mul_series :: "fl list \<Rightarrow> fl list \<Rightarrow> fl list" where
  "mul_series xs ys = map2 fl_mul xs ys"

text \<open>
  \<^verbatim>\<open>col.fillna(v, inplace=True)\<close>: every NaN becomes \<open>v\<close>. The column holds no NaN
  afterwards, so from here on it is a list of reals. (The source writes through
  \<^verbatim>\<open>df['strategy_returns']\<close>; the model is of the pandas versions where that updates the
  frame.)
\<close>

definition fillna :: "real \<Rightarrow> fl list \<Rightarrow> real list" where
  "fillna v xs = map (\<lambda>c. case c of None \<Rightarrow> v | Some y \<Rightarrow> y) xs"

text \<open>\<^verbatim>\<open>col.cumprod()\<close> and \<^verbatim>\<open>col.cummax()\<close>: running product and running maximum.\<close>

fun cumprod_from :: "real \<Rightarrow> real list \<Rightarrow> real list" where
  "cumprod_from acc [] = []"
| "cumprod_from acc (x # xs) = (acc * x) # cumprod_from (acc * x) xs"

definition cumprod :: "real list \<Rightarrow> real list" where
  "cumprod xs = cumprod_from 1 xs"

fun cummax_from :: "real \<Rightarrow> real list \<Rightarrow> real list" where
  "cummax_from m [] = []"
| "cummax_from m (x # xs) = max m x # cummax_from (max m x) xs"

fun cummax :: "real list \<Rightarrow> real list" where
  "cummax [] = []"
| "cummax (x # xs) = x # cummax_from x xs"

text \<open>
  \<^verbatim>\<open>col.mean()\<close> is NaN on an empty column; \<^verbatim>\<open>col.std()\<close> is the sample standard
  deviation (divisor \<open>n - 1\<close>) and is NaN on fewer than two rows.
\<close>

definition series_mean :: "real list \<Rightarrow> fl" where
  "series_mean xs = (if xs = [] then None else Some (sum_list xs / real (length xs)))"

definition series_std :: "real list \<Rightarrow> fl" where
  "series_std xs =
     (if length xs < 2 then None
      else Some (sqrt (sum_list (map (\<lambda>x. (x - sum_list xs / real (length xs))\<^sup>2) xs)
                       / real (length xs - 1))))"

text \<open>\<^verbatim>\<open>a - b\<close> and \<^verbatim>\<open>a / b\<close> on two columns, row by row.\<close>

definition sub_series :: "real list \<Rightarrow> real list \<Rightarrow> real list" where
  "sub_series xs ys = map2 (\<lambda>x y. x - y) xs ys"

definition div_series :: "real list \<Rightarrow> real list \<Rightarrow> fl list" where
  "div_series xs ys = map2 real_div xs ys"

text \<open>\<^verbatim>\<open>col.min()\<close> skips NaN cells and is NaN when no cell is left.\<close>

definition series_min :: "fl list \<Rightarrow> fl" where
  "series_min xs =
     (case List.map_filter (\<lambda>c. c) xs of [] \<Rightarrow> None | v # vs \<Rightarrow> Some (fold min vs v))"

text \<open>\<^verbatim>\<open>col.iloc[-1]\<close>: the last row; IndexError on an empty column.\<close>

definition iloc_last :: "real list \<Rightarrow> error + real" where
  "iloc_last xs = (if xs = [] then Inl IndexError else Inr (last xs))"

section \<open>The backtest\<close>

record dataframe =
  signals :: "fl list"
  returns :: "fl list"
  strategy_returns :: "real list"
  cumulative_returns :: "real list"

record results =
  total_pnl :: real
  sharpe_ratio :: fl
  max_drawdown :: fl
  cumulative_return :: real
  performance :: dataframe

text \<open>
  \<open>plot_performance df drawdown\<close> draws two charts and returns nothing. Its effect is the
  pair of series it is given; \<open>backtest_strategy\<close> returns the list of such calls it made
  beside its result.
\<close>

type_synonym chart_call = "real list \<times> fl list"

definition plot_performance :: "dataframe \<Rightarrow> fl list \<Rightarrow> chart_call" where
  "plot_performance df drawdown = (cumulative_returns df, drawdown)"

definition drawdown_series :: "real list \<Rightarrow> fl list" where
  "drawdown_series cr = div_series (sub_series cr (cummax cr)) (cummax cr)"

definition sharpe_of :: "fl \<Rightarrow> fl \<Rightarrow> fl" where
  "sharpe_of mean_return std_return =
     (if fl_ne std_return (Some 0)
      then fl_mul (fl_div mean_return std_return) (Some (sqrt 252))
      else None)"

definition backtest_strategy ::
    "py_seq \<Rightarrow> py_seq \<Rightarrow> bool \<Rightarrow> error + (results \<times> chart_call list)" where
  "backtest_strategy sigs rets plot_charts =
     (case DataFrame sigs rets of
        Inl e \<Rightarrow> Inl e
      | Inr (sg, rt) \<Rightarrow>
          (let sr = fillna 0 (mul_series (shift1 sg) rt);
               cr = cumprod (map (\<lambda>x. 1 + x) sr);
               df = \<lparr>signals = sg, returns = rt,
                     strategy_returns = sr, cumulative_returns = cr\<rparr>;
               pnl = sum_list sr;
               sharpe = sharpe_of (series_mean sr) (series_std sr);
               drawdown = drawdown_series cr;
               mdd = series_min drawdown
           in case iloc_last cr of
                Inl e \<Rightarrow> Inl e
              | Inr final \<Rightarrow>
                  Inr (\<lparr>total_pnl = pnl, sharpe_ratio = sharpe, max_drawdown = mdd,
                        cumulative_return = final - 1, performance = df\<rparr>,
                       if plot_charts then [plot_performance df drawdown] else [])))"

section \<open>Fetching price data\<close>

text \<open>
  \<^verbatim>\<open>src/function/fetch_stock_data.py\<close>. The provider call \<^verbatim>\<open>yf.download\<close> is the
  environment: it returns a table (its rows), raises an exception that derives from
  \<^verbatim>\<open>Exception\<close> (with its message), or is cut short by one that does not
  (KeyboardInterrupt, SystemExit), which \<^verbatim>\<open>except Exception\<close> lets through.
\<close>

datatype 'row download = Returned "'row list" | Raised string | Interrupted

datatype 'row fetched = Result "'row list option" | Propagates

text \<open>The function's effect on standard output is the list of lines it printed.\<close>

definition fetch_stock_data ::
    "(string \<Rightarrow> 'd \<Rightarrow> 'd \<Rightarrow> 'row download) \<Rightarrow> string \<Rightarrow> 'd \<Rightarrow> 'd \<Rightarrow> string list \<times> 'row fetched" where
  "fetch_stock_data yf_download ticker start_date end_date =
     (case yf_download ticker start_date end_date of
        Returned data \<Rightarrow>
          (if length data = 0 then ([''No data for '' @ ticker], Result None)
           else ([], Result (Some data)))
      | Raised e \<Rightarrow> ([''Error fetching data for '' @ ticker @ '': '' @ e], Result None)
      | Interrupted \<Rightarrow> ([], Propagates))"

section \<open>Facts about the column operations\<close>

lemma length_shift1: "length (shift1 xs) = length xs"
  by (simp add: shift1_def)

lemma length_fillna: "length (fillna v xs) = length xs"
  by (simp add: fillna_def)

lemma length_cumprod_from: "length (cumprod_from acc xs) = length xs"
  by (induction xs arbitrary: acc) simp_all

lemma length_cumprod: "length (cumprod xs) = length xs"
  by (simp add: cumprod_def length_cumprod_from)

lemma length_cummax_from: "length (cummax_from m xs) = length xs"
  by (induction xs arbitrary: m) simp_all

lemma length_cummax: "length (cummax xs) = length xs"
  by (cases xs) (simp_all add: length_cummax_from)

lemma shift1_nth:
  "i < length xs \<Longrightarrow> shift1 xs ! i = (if i = 0 then None else xs ! (i - 1))"
  by (cases i) (auto simp: shift1_def nth_butlast)

lemma map2_fl_mul_Some:
  "map2 fl_mul (map Some as) (map Some bs) = map Some (map2 (*) as bs)"
  by (induction as bs rule: list_induct2') (simp_all add: fl_mul_def)

text \<open>The strategy-return column of two aligned lists, in closed form.\<close>

lemma strategy_returns_lists:
  "length s = length r \<Longrightarrow>
   fillna 0 (mul_series (shift1 (map Some s)) (map Some r)) =
     (if r = [] then [] else 0 # map2 (*) (butlast s) (tl r))"
proof (cases r)
  case Nil
  then show ?thesis by (simp add: fillna_def mul_series_def shift1_def)
next
  case (Cons y ys)
  assume len: "length s = length r"
  then obtain x xs where s: "s = x # xs" using Cons by (cases s) auto
  note m = map2_fl_mul_Some
  have "butlast (map Some s) = map Some (butlast s)" by (simp add: map_butlast)
  then show ?thesis using Cons s m[of "butlast s" ys]
    by (simp add: fillna_def mul_series_def shift1_def fl_mul_def comp_def del: butlast.simps)
qed

lemma strategy_returns_nth:
  assumes "length sg = length rt" and "i < length rt"
  shows "fillna 0 (mul_series (shift1 sg) rt) ! i =
     (case fl_mul (if i = 0 then None else sg ! (i - 1)) (rt ! i) of None \<Rightarrow> 0 | Some y \<Rightarrow> y)"
  using assms by (simp add: fillna_def mul_series_def length_shift1 shift1_nth)

lemma lag_product_nth:
  assumes "length s = length r" and "i < length r"
  shows "(0 # map2 (*) (butlast s) (tl r)) ! i = (if i = 0 then 0 else s ! (i - 1) * r ! i)"
proof (cases i)
  case 0
  then show ?thesis by simp
next
  case (Suc j)
  then have "j < length (butlast s)" "j < length (tl r)" using assms by simp_all
  then show ?thesis using Suc assms by (simp add: nth_butlast nth_tl)
qed

lemma zero_signal_products:
  assumes "\<forall>x\<in>set s. x = 0"
  shows "map2 (*) (butlast s) ys = replicate (min (length s - 1) (length ys)) (0::real)"
proof (rule nth_equalityI)
  show "length (map2 (*) (butlast s) ys) = length (replicate (min (length s - 1) (length ys)) (0::real))"
    by simp
  fix i assume "i < length (map2 (*) (butlast s) ys)"
  then have i: "i < length s - 1" "i < length ys" by simp_all
  then have "butlast s ! i \<in> set s" by (simp add: nth_butlast)
  then have "butlast s ! i = 0" using assms by blast
  then show "map2 (*) (butlast s) ys ! i = replicate (min (length s - 1) (length ys)) (0::real) ! i"
    using i by simp
qed

lemma length_pad: "length xs \<le> n \<Longrightarrow> length (pad n xs) = n"
  by (simp add: pad_def)

lemma pad_nth:
  "length xs \<le> n \<Longrightarrow> i < n \<Longrightarrow> pad n xs ! i = (if i < length xs then Some (xs ! i) else None)"
  by (simp add: pad_def nth_append)

lemma cumprod_from_nth:
  "i < length xs \<Longrightarrow> cumprod_from acc xs ! i = acc * (\<Prod>k\<le>i. xs ! k)"
proof (induction xs arbitrary: acc i)
  case Nil
  then show ?case by simp
next
  case (Cons x xs)
  show ?case
  proof (cases i)
    case 0
    then show ?thesis by simp
  next
    case (Suc j)
    then have "j < length xs" using Cons.prems by simp
    then have "cumprod_from (acc * x) xs ! j = acc * x * (\<Prod>k\<le>j. xs ! k)"
      by (rule Cons.IH)
    moreover have "(\<Prod>k\<le>Suc j. (x # xs) ! k) = x * (\<Prod>k\<le>j. xs ! k)"
      by (simp add: prod.atMost_Suc_shift del: prod.atMost_Suc)
    ultimately show ?thesis using Suc by simp
  qed
qed

lemma cumprod_nth: "i < length xs \<Longrightarrow> cumprod xs ! i = (\<Prod>k\<le>i. xs ! k)"
  by (simp add: cumprod_def cumprod_from_nth)

lemma cumprod_from_last: "xs \<noteq> [] \<Longrightarrow> last (cumprod_from acc xs) = acc * prod_list xs"
proof (induction xs arbitrary: acc)
  case Nil
  then show ?case by simp
next
  case (Cons x xs)
  then show ?case by (cases xs) simp_all
qed

lemma cumprod_last: "xs \<noteq> [] \<Longrightarrow> last (cumprod xs) = prod_list xs"
  by (simp add: cumprod_def cumprod_from_last)

lemma cumprod_from_ones: "cumprod_from 1 (replicate n 1) = replicate n 1"
  by (induction n) simp_all

lemma cummax_from_nth:
  "i < length xs \<Longrightarrow> cummax_from m xs ! i = max m (Max ((!) xs ` {..i}))"
proof (induction xs arbitrary: m i)
  case Nil
  then show ?case by simp
next
  case (Cons x xs)
  show ?case
  proof (cases i)
    case 0
    then show ?thesis by simp
  next
    case (Suc j)
    then have j: "j < length xs" using Cons.prems by simp
    have img: "(!) (x # xs) ` {..Suc j} = insert x ((!) xs ` {..j})"
      by (auto simp: image_iff atMost_Suc_eq_insert_0 nth_Cons split: nat.splits)
    have "Max ((!) (x # xs) ` {..Suc j}) = max x (Max ((!) xs ` {..j}))"
      unfolding img by (rule Max_insert) auto
    then show ?thesis using Suc Cons.IH[OF j, of "max m x"] by (simp add: max.assoc)
  qed
qed

lemma cummax_nth: "i < length xs \<Longrightarrow> cummax xs ! i = Max ((!) xs ` {..i})"
proof (cases xs)
  case Nil
  assume "i < length xs"
  then show ?thesis using Nil by simp
next
  case (Cons x ys)
  assume i: "i < length xs"
  show ?thesis
  proof (cases i)
    case 0
    then show ?thesis using Cons by simp
  next
    case (Suc j)
    then have j: "j < length ys" using i Cons by simp
    have img: "(!) (x # ys) ` {..Suc j} = insert x ((!) ys ` {..j})"
      by (auto simp: image_iff atMost_Suc_eq_insert_0 nth_Cons split: nat.splits)
    have "Max ((!) (x # ys) ` {..Suc j}) = max x (Max ((!) ys ` {..j}))"
      unfolding img by (rule Max_insert) auto
    then show ?thesis using Suc Cons cummax_from_nth[OF j, of x] by simp
  qed
qed

lemma cummax_ge_self: "i < length xs \<Longrightarrow> xs ! i \<le> cummax xs ! i"
  by (simp add: cummax_nth)

lemma cummax_ge_first: "i < length xs \<Longrightarrow> xs ! 0 \<le> cummax xs ! i"
  by (simp add: cummax_nth)

lemma cummax_from_const: "cummax_from c (replicate n c) = replicate n c"
  by (induction n) simp_all

lemma cummax_const: "cummax (replicate n c) = replicate n c"
  by (cases n) (simp_all add: cummax_from_const)

lemma drawdown_series_length: "length (drawdown_series cr) = length cr"
  by (simp add: drawdown_series_def div_series_def sub_series_def length_cummax)

lemma drawdown_series_nth:
  "i < length cr \<Longrightarrow>
   drawdown_series cr ! i = real_div (cr ! i - cummax cr ! i) (cummax cr ! i)"
  by (simp add: drawdown_series_def div_series_def sub_series_def length_cummax)

lemma fold_min_Min: "fold min vs (v::real) = Min (set (v # vs))"
  by (rule Min.set_eq_fold[symmetric])

lemma series_min_all_Some:
  "ys \<noteq> [] \<Longrightarrow> series_min (map Some ys) = Some (Min (set ys))"
proof -
  assume ne: "ys \<noteq> []"
  have "List.map_filter (\<lambda>c. c) (map Some ys) = ys"
    by (induction ys) (simp_all add: List.map_filter_simps)
  then show ?thesis using ne
    by (cases ys) (simp_all add: series_min_def fold_min_Min del: set_simps)
qed

text \<open>The sample standard deviation is zero exactly on a constant column of two or more rows.\<close>

lemma series_std_zero_iff:
  "series_std xs = Some 0 \<longleftrightarrow> 2 \<le> length xs \<and> (\<forall>x\<in>set xs. x = hd xs)"
proof (cases "length xs < 2")
  case True
  then show ?thesis by (simp add: series_std_def)
next
  case False
  let ?n = "real (length xs)"
  let ?mu = "sum_list xs / ?n"
  let ?S = "sum_list (map (\<lambda>x. (x - ?mu)\<^sup>2) xs)"
  have n: "2 \<le> length xs" using False by simp
  then have ne: "xs \<noteq> []" by auto
  have "series_std xs = Some 0 \<longleftrightarrow> ?S / real (length xs - 1) = 0"
    using False by (simp add: series_std_def)
  also have "\<dots> \<longleftrightarrow> ?S = 0" using n by simp
  also have "\<dots> \<longleftrightarrow> (\<forall>y\<in>set (map (\<lambda>x. (x - ?mu)\<^sup>2) xs). y = 0)"
    by (rule sum_list_nonneg_eq_0_iff) auto
  also have "\<dots> \<longleftrightarrow> (\<forall>x\<in>set xs. x = ?mu)" by auto
  also have "\<dots> \<longleftrightarrow> (\<forall>x\<in>set xs. x = hd xs)"
  proof
    assume a: "\<forall>x\<in>set xs. x = ?mu"
    then have "hd xs = ?mu" using ne by simp
    then show "\<forall>x\<in>set xs. x = hd xs" using a by simp
  next
    assume a: "\<forall>x\<in>set xs. x = hd xs"
    then have "xs = replicate (length xs) (hd xs)"
      by (metis replicate_length_same)
    then have "sum_list xs = ?n * hd xs"
      by (metis sum_list_replicate)
    then have "?mu = hd xs" using ne by simp
    then show "\<forall>x\<in>set xs. x = ?mu" using a by simp
  qed
  finally show ?thesis using n by simp
qed

lemma sharpe_of_zero_std: "sharpe_of m (Some 0) = None"
  by (simp add: sharpe_of_def fl_ne_def)

lemma sharpe_of_nan_std: "sharpe_of m None = None"
  by (simp add: sharpe_of_def fl_ne_def fl_div_def fl_mul_def split: option.splits)

lemma sharpe_of_number:
  "sd \<noteq> 0 \<Longrightarrow> sharpe_of (Some m) (Some sd) = Some (m / sd * sqrt 252)"
  by (simp add: sharpe_of_def fl_ne_def fl_div_def fl_mul_def real_div_def)

section \<open>What a run returns\<close>

text \<open>What a successful run returns, in terms of the table it was built from.\<close>

lemma backtest_strategy_Inr:
  assumes "backtest_strategy a b p = Inr (res, plots)"
  shows "\<exists>sg rt. DataFrame a b = Inr (sg, rt) \<and>
      signals (performance res) = sg \<and> returns (performance res) = rt \<and>
      strategy_returns (performance res) = fillna 0 (mul_series (shift1 sg) rt)"
    and "cumulative_returns (performance res) =
      cumprod (map (\<lambda>x. 1 + x) (strategy_returns (performance res)))"
    and "cumulative_returns (performance res) \<noteq> []"
    and "total_pnl res = sum_list (strategy_returns (performance res))"
    and "sharpe_ratio res = sharpe_of (series_mean (strategy_returns (performance res)))
                                     (series_std (strategy_returns (performance res)))"
    and "max_drawdown res = series_min (drawdown_series (cumulative_returns (performance res)))"
    and "cumulative_return res = last (cumulative_returns (performance res)) - 1"
    and "plots = (if p then [(cumulative_returns (performance res),
                              drawdown_series (cumulative_returns (performance res)))] else [])"
  using assms
  by (auto simp: backtest_strategy_def Let_def iloc_last_def plot_performance_def
           split: sum.splits prod.splits if_splits)

lemma backtest_strategy_lists:
  assumes "length s = length r" and "r \<noteq> []"
  shows "\<exists>res plots. backtest_strategy (PyList s) (PyList r) p = Inr (res, plots) \<and>
      strategy_returns (performance res) = 0 # map2 (*) (butlast s) (tl r)"
proof -
  let ?sr = "fillna 0 (mul_series (shift1 (map Some s)) (map Some r))"
  have sr: "?sr = 0 # map2 (*) (butlast s) (tl r)"
    using assms by (simp add: strategy_returns_lists)
  have "cumprod (map (\<lambda>x. 1 + x) ?sr) \<noteq> []"
    unfolding sr by (simp add: cumprod_def)
  then show ?thesis using assms(1) sr
    by (simp add: backtest_strategy_def Let_def iloc_last_def)
qed

text \<open>
  Strategy returns start with 0 in every run (the shifted signal of the first row is NaN),
  so cumulative returns start at 1 and the running maximum never falls below 1.
\<close>

lemma backtest_strategy_first_row:
  assumes "backtest_strategy a b p = Inr (res, plots)"
  shows "strategy_returns (performance res) ! 0 = 0"
    and "cumulative_returns (performance res) ! 0 = 1"
proof -
  from backtest_strategy_Inr(1)[OF assms] obtain sg rt where
    sr: "strategy_returns (performance res) = fillna 0 (mul_series (shift1 sg) rt)" by blast
  have cr: "cumulative_returns (performance res) =
      cumprod (map (\<lambda>x. 1 + x) (strategy_returns (performance res)))"
    by (rule backtest_strategy_Inr(2)[OF assms])
  have ne: "cumulative_returns (performance res) \<noteq> []"
    by (rule backtest_strategy_Inr(3)[OF assms])
  then have ne_sr: "strategy_returns (performance res) \<noteq> []"
    using cr by (auto simp: cumprod_def)
  then have "sg \<noteq> []" "rt \<noteq> []" using sr
    by (auto simp: fillna_def mul_series_def shift1_def)
  then show s0: "strategy_returns (performance res) ! 0 = 0"
    unfolding sr by (cases rt) (simp_all add: fillna_def mul_series_def shift1_def fl_mul_def)
  obtain y ys where "strategy_returns (performance res) = y # ys"
    using ne_sr by (cases "strategy_returns (performance res)") auto
  then show "cumulative_returns (performance res) ! 0 = 1"
    using s0 cr by (simp add: cumprod_def)
qed

lemma running_max_ge_one:
  assumes "backtest_strategy a b p = Inr (res, plots)"
    and "i < length (cumulative_returns (performance res))"
  shows "1 \<le> cummax (cumulative_returns (performance res)) ! i"
  using cummax_ge_first[OF assms(2)] backtest_strategy_first_row(2)[OF assms(1)] by simp

text \<open>The drawdown column of a run: every cell is a number.\<close>

lemma drawdown_of_run:
  assumes "backtest_strategy a b p = Inr (res, plots)"
  shows "drawdown_series (cumulative_returns (performance res)) =
     map Some (map (\<lambda>i. (cumulative_returns (performance res) ! i
                            - cummax (cumulative_returns (performance res)) ! i)
                          / cummax (cumulative_returns (performance res)) ! i)
                   [0..<length (cumulative_returns (performance res))])"
proof (rule nth_equalityI)
  let ?cr = "cumulative_returns (performance res)"
  show "length (drawdown_series ?cr) =
     length (map Some (map (\<lambda>i. (?cr ! i - cummax ?cr ! i) / cummax ?cr ! i) [0..<length ?cr]))"
    by (simp add: drawdown_series_length)
  fix i assume "i < length (drawdown_series ?cr)"
  then have i: "i < length ?cr" by (simp add: drawdown_series_length)
  have "cummax ?cr ! i \<noteq> 0" using running_max_ge_one[OF assms i] by simp
  then show "drawdown_series ?cr ! i =
      map Some (map (\<lambda>i. (?cr ! i - cummax ?cr ! i) / cummax ?cr ! i) [0..<length ?cr]) ! i"
    using i by (simp add: drawdown_series_nth real_div_def)
qed

text \<open>
  Total P&L and final cumulative return of a run over lists, as a sum and a product over
  the lag-aligned rows \<open>(signal[i-1], return[i])\<close>.
\<close>

lemma totals_over_lagged_rows:
  assumes "length s = length r" and "r \<noteq> []"
  shows "\<exists>res plots. backtest_strategy (PyList s) (PyList r) p = Inr (res, plots) \<and>
    total_pnl res = sum_mset (image_mset (\<lambda>(a, b). a * b) (mset (zip (butlast s) (tl r)))) \<and>
    cumulative_return res =
      prod_mset (image_mset (\<lambda>(a, b). 1 + a * b) (mset (zip (butlast s) (tl r)))) - 1"
proof -
  from backtest_strategy_lists[OF assms, of p] obtain res plots where
    run: "backtest_strategy (PyList s) (PyList r) p = Inr (res, plots)" and
    sr: "strategy_returns (performance res) = 0 # map2 (*) (butlast s) (tl r)" by blast
  let ?zs = "zip (butlast s) (tl r)"
  have "total_pnl res = sum_list (map (\<lambda>(a, b). a * b) ?zs)"
    using backtest_strategy_Inr(4)[OF run] by (simp add: sr)
  also have "\<dots> = sum_mset (mset (map (\<lambda>(a, b). a * b) ?zs))"
    by (simp only: sum_mset_sum_list)
  finally have pnl: "total_pnl res = sum_mset (image_mset (\<lambda>(a, b). a * b) (mset ?zs))"
    by simp
  have "cumulative_return res
      = last (cumprod (map (\<lambda>x. 1 + x) (strategy_returns (performance res)))) - 1"
    using backtest_strategy_Inr(7)[OF run] backtest_strategy_Inr(2)[OF run] by simp
  also have "\<dots> = prod_list (map (\<lambda>x. 1 + x) (0 # map2 (*) (butlast s) (tl r))) - 1"
    by (simp add: sr cumprod_last)
  also have "map (\<lambda>x. 1 + x) (0 # map2 (*) (butlast s) (tl r))
      = 1 # map (\<lambda>(a, b). 1 + a * b) ?zs"
    by (simp add: case_prod_unfold)
  also have "prod_list (1 # map (\<lambda>(a, b). 1 + a * b) ?zs)
      = prod_mset (mset (map (\<lambda>(a, b). 1 + a * b) ?zs))"
    by (simp only: prod_mset_prod_list) simp
  finally have cum: "cumulative_return res
      = prod_mset (image_mset (\<lambda>(a, b). 1 + a * b) (mset ?zs)) - 1"
    by simp
  show ?thesis using run pnl cum by blast
qed

text \<open>A two-row run, evaluated: the example input of several witnesses below.\<close>

lemma two_row_run:
  assumes "backtest_strategy (PyList [1, 1]) (PyList [1/10, - 1/2]) p = Inr (res, plots)"
  shows "strategy_returns (performance res) = [0, - 1/2]"
    and "cumulative_returns (performance res) = [1, 1/2]"
  using assms
  by (auto simp: backtest_strategy_def Let_def shift1_def mul_series_def fillna_def fl_mul_def
      cumprod_def iloc_last_def)

text \<open>
  Two Series of one length give the table that the two lists of their values give, so
  what is proved below for lists holds for aligned Series as well.
\<close>

lemma aligned_series_as_lists:
  "length a = length b \<Longrightarrow>
   backtest_strategy (PdSeries a) (PdSeries b) p = backtest_strategy (PyList a) (PyList b) p"
  by (simp add: backtest_strategy_def pad_def)

section \<open>The claims\<close>

text \<open>
  C1. For signals \<open>[0, 1, 1, -1]\<close> and returns \<open>[0.01, 0.02, -0.01, 0.03]\<close> the run
  succeeds with strategy returns \<open>[0, 0, -0.01, 0.03]\<close>, cumulative returns
  \<open>[1, 1, 0.99, 1.0197]\<close>, final cumulative return \<open>0.0197\<close> and total P&L \<open>0.02\<close>.
\<close>

theorem scenario_four_rows:
  "\<exists>res. backtest_strategy (PyList [0, 1, 1, -1]) (PyList [0.01, 0.02, -0.01, 0.03]) False
           = Inr (res, []) \<and>
     strategy_returns (performance res) = [0, 0, -0.01, 0.03] \<and>
     cumulative_returns (performance res) = [1, 1, 0.99, 1.0197] \<and>
     cumulative_return res = 0.0197 \<and>
     total_pnl res = 0.02"
  by (simp add: backtest_strategy_def Let_def shift1_def mul_series_def fillna_def fl_mul_def
      cumprod_def iloc_last_def)

text \<open>
  C2. For equal-length lists the run returns a result whenever they are non-empty, and in
  every result the strategy return is \<open>0\<close> at position \<open>0\<close> and
  \<open>signal[i-1] * return[i]\<close> at every position \<open>i \<ge> 1\<close>, and the cumulative return at
  position \<open>i\<close> is the product over \<open>k = 0..i\<close> of \<open>1 + strategy_return[k]\<close>.
\<close>

theorem strategy_and_cumulative_formula:
  assumes "length s = length r"
  shows "(r \<noteq> [] \<longrightarrow> (\<exists>res plots. backtest_strategy (PyList s) (PyList r) p = Inr (res, plots))) \<and>
    (\<forall>res plots. backtest_strategy (PyList s) (PyList r) p = Inr (res, plots) \<longrightarrow>
       length (strategy_returns (performance res)) = length r \<and>
       length (cumulative_returns (performance res)) = length r \<and>
       (\<forall>i<length r.
          strategy_returns (performance res) ! i = (if i = 0 then 0 else s ! (i - 1) * r ! i) \<and>
          cumulative_returns (performance res) ! i =
            (\<Prod>k\<le>i. 1 + strategy_returns (performance res) ! k)))"
proof (intro conjI allI impI)
  assume "r \<noteq> []"
  then show "\<exists>res plots. backtest_strategy (PyList s) (PyList r) p = Inr (res, plots)"
    using backtest_strategy_lists[OF assms, of p] by blast
next
  fix res plots
  assume run: "backtest_strategy (PyList s) (PyList r) p = Inr (res, plots)"
  let ?sr = "strategy_returns (performance res)"
  let ?cr = "cumulative_returns (performance res)"
  have ne: "r \<noteq> []"
    using run assms by (auto simp: backtest_strategy_def Let_def iloc_last_def shift1_def
        mul_series_def fillna_def cumprod_def split: if_splits)
  from backtest_strategy_lists[OF assms ne, of p] run
  have sr: "?sr = 0 # map2 (*) (butlast s) (tl r)" by auto
  have cr: "?cr = cumprod (map (\<lambda>x. 1 + x) ?sr)" by (rule backtest_strategy_Inr(2)[OF run])
  show len_sr: "length ?sr = length r" using assms ne by (simp add: sr)
  show "length ?cr = length r" using len_sr by (simp add: cr length_cumprod)
  fix i assume i: "i < length r"
  show "?sr ! i = (if i = 0 then 0 else s ! (i - 1) * r ! i)"
    unfolding sr by (rule lag_product_nth[OF assms i])
  have "?cr ! i = (\<Prod>k\<le>i. map (\<lambda>x. 1 + x) ?sr ! k)"
    unfolding cr using i len_sr by (simp add: cumprod_nth)
  also have "\<dots> = (\<Prod>k\<le>i. 1 + ?sr ! k)"
    using i len_sr by (intro prod.cong) auto
  finally show "?cr ! i = (\<Prod>k\<le>i. 1 + ?sr ! k)" .
qed

theorem strategy_and_cumulative_formula_witness:
  "length [1, 0::real] = length [1/10, 1/2::real] \<and>
   (\<exists>res plots. backtest_strategy (PyList [1, 0]) (PyList [1/10, 1/2]) False = Inr (res, plots) \<and>
      strategy_returns (performance res) ! 0 = 0 \<and>
      strategy_returns (performance res) ! 1 = 1 * (1/2) \<and>
      cumulative_returns (performance res) ! 1 = (1 + 0) * (1 + 1/2))"
proof -
  have len: "length [1, 0::real] = length [1/10, 1/2::real]" by simp
  from strategy_and_cumulative_formula[OF len, of False]
  obtain res plots where
    run: "backtest_strategy (PyList [1, 0]) (PyList [1/10, 1/2]) False = Inr (res, plots)"
    by auto
  from strategy_and_cumulative_formula[OF len, of False] run
  have all: "\<forall>i<length [1/10, 1/2::real].
          strategy_returns (performance res) ! i = (if i = 0 then 0 else [1, 0] ! (i - 1) * [1/10, 1/2] ! i) \<and>
          cumulative_returns (performance res) ! i =
            (\<Prod>k\<le>i. 1 + strategy_returns (performance res) ! k)" by blast
  have s0: "strategy_returns (performance res) ! 0 = 0" using all[rule_format, of 0] by simp
  have s1: "strategy_returns (performance res) ! 1 = 1 * (1/2)" using all[rule_format, of 1] by simp
  have c1: "cumulative_returns (performance res) ! 1 = (1 + 0) * (1 + 1/2)"
  proof -
    have "{..1::nat} = {0, 1}" by auto
    then have "(\<Prod>k\<le>1. 1 + strategy_returns (performance res) ! k) =
        (1 + strategy_returns (performance res) ! 0) * (1 + strategy_returns (performance res) ! 1)"
      by simp
    then show ?thesis using all[rule_format, of 1] s0 s1 by simp
  qed
  show ?thesis using len run s0 s1 c1 by blast
qed

text \<open>
  C3 (as stated, refuted). A constant nonzero signal with a constant nonzero return does
  not give zero variance: the first strategy return is 0, the next is \<open>signal * return\<close>.
  On signals \<open>[1, 1]\<close> and returns \<open>[0.01, 0.01]\<close> the Sharpe ratio is the number
  \<open>sqrt 126\<close>, not NaN.
\<close>

theorem constant_signal_sharpe_counterexample:
  "map_sum id (sharpe_ratio \<circ> fst)
     (backtest_strategy (PyList [1, 1]) (PyList [1/100, 1/100]) False) = Inr (Some (sqrt 126))"
proof -
  have sq: "sqrt (1/20000) = 1 / (100 * sqrt 2)"
  proof -
    have "sqrt (1/20000) = 1 / sqrt (100\<^sup>2 * 2)" by (simp add: real_sqrt_divide)
    also have "\<dots> = 1 / (100 * sqrt 2)" by (simp only: real_sqrt_mult real_sqrt_abs)
    finally show ?thesis .
  qed
  have s126: "sqrt 252 = sqrt 2 * sqrt 126"
    by (simp flip: real_sqrt_mult)
  have "map_sum id (sharpe_ratio \<circ> fst)
     (backtest_strategy (PyList [1, 1]) (PyList [1/100, 1/100]) False)
     = Inr (sharpe_of (Some (1/200)) (Some (sqrt (1/20000))))"
    by (simp add: backtest_strategy_def Let_def shift1_def mul_series_def fillna_def fl_mul_def
        cumprod_def iloc_last_def series_mean_def series_std_def power2_eq_square)
  also have "sharpe_of (Some (1/200)) (Some (sqrt (1/20000))) = Some (sqrt 126)"
    by (simp add: sharpe_of_number sq s126)
  finally show ?thesis .
qed

text \<open>
  C3 (amended). For non-empty equal-length lists the run succeeds, and: the standard
  deviation of the strategy returns is zero exactly when there are two or more rows and
  every strategy return is 0 (so for all-zero signals, not for a constant nonzero signal
  with a constant nonzero return), and then the Sharpe ratio is NaN; for all-zero signals
  the Sharpe ratio is NaN; and when the standard deviation is a nonzero number the Sharpe
  ratio is \<open>mean / stddev * sqrt 252\<close>.
\<close>

theorem sharpe_ratio_cases:
  assumes "length s = length r" and "r \<noteq> []"
  shows "\<exists>res plots. backtest_strategy (PyList s) (PyList r) p = Inr (res, plots) \<and>
    (series_std (strategy_returns (performance res)) = Some 0 \<longleftrightarrow>
       2 \<le> length r \<and> (\<forall>x\<in>set (strategy_returns (performance res)). x = 0)) \<and>
    (series_std (strategy_returns (performance res)) = Some 0 \<longrightarrow> sharpe_ratio res = None) \<and>
    ((\<forall>x\<in>set s. x = 0) \<longrightarrow> sharpe_ratio res = None) \<and>
    (\<forall>sd. series_std (strategy_returns (performance res)) = Some sd \<and> sd \<noteq> 0 \<longrightarrow>
       sharpe_ratio res =
         Some (sum_list (strategy_returns (performance res)) / real (length r) / sd * sqrt 252))"
proof -
  from backtest_strategy_lists[OF assms, of p] obtain res plots where
    run: "backtest_strategy (PyList s) (PyList r) p = Inr (res, plots)" and
    sr: "strategy_returns (performance res) = 0 # map2 (*) (butlast s) (tl r)" by blast
  let ?sr = "strategy_returns (performance res)"
  have len: "length ?sr = length r" using assms by (simp add: sr)
  have hd0: "hd ?sr = 0" by (simp add: sr)
  have sh: "sharpe_ratio res = sharpe_of (series_mean ?sr) (series_std ?sr)"
    by (rule backtest_strategy_Inr(5)[OF run])
  have mean: "series_mean ?sr = Some (sum_list ?sr / real (length r))"
    using len assms(2) by (auto simp: series_mean_def)
  have iff: "series_std ?sr = Some 0 \<longleftrightarrow> 2 \<le> length r \<and> (\<forall>x\<in>set ?sr. x = 0)"
    using series_std_zero_iff[of ?sr] by (simp add: len hd0)
  have zero: "series_std ?sr = Some 0 \<longrightarrow> sharpe_ratio res = None"
    by (simp add: sh sharpe_of_zero_std)
  have flat: "(\<forall>x\<in>set s. x = 0) \<longrightarrow> sharpe_ratio res = None"
  proof
    assume z: "\<forall>x\<in>set s. x = 0"
    have all0: "\<forall>x\<in>set ?sr. x = 0"
      using zero_signal_products[OF z, of "tl r"] by (auto simp: sr)
    show "sharpe_ratio res = None"
    proof (cases "2 \<le> length r")
      case True
      then show ?thesis using iff all0 zero by blast
    next
      case False
      then have "series_std ?sr = None" by (simp add: series_std_def len)
      then show ?thesis by (simp add: sh sharpe_of_nan_std)
    qed
  qed
  have num: "\<forall>sd. series_std ?sr = Some sd \<and> sd \<noteq> 0 \<longrightarrow>
       sharpe_ratio res = Some (sum_list ?sr / real (length r) / sd * sqrt 252)"
    by (simp add: sh mean sharpe_of_number)
  show ?thesis using run iff zero flat num by blast
qed

theorem sharpe_ratio_cases_witness:
  "length [0, 0::real] = length [1/10, - 1/2::real] \<and> [1/10, - 1/2::real] \<noteq> [] \<and>
   (\<exists>res plots. backtest_strategy (PyList [0, 0]) (PyList [1/10, - 1/2]) False = Inr (res, plots) \<and>
      series_std (strategy_returns (performance res)) = Some 0 \<and>
      sharpe_ratio res = None) \<and>
   (\<exists>res plots. backtest_strategy (PyList [1, 1]) (PyList [1/10, - 1/2]) False = Inr (res, plots) \<and>
      series_std (strategy_returns (performance res)) = Some (sqrt (1/8)) \<and>
      sqrt (1/8) \<noteq> 0 \<and>
      sharpe_ratio res = Some ((- 1/2) / 2 / sqrt (1/8) * sqrt 252))"
proof -
  have len0: "length [0, 0::real] = length [1/10, - 1/2::real]" by simp
  have len1: "length [1, 1::real] = length [1/10, - 1/2::real]" by simp
  have ne: "[1/10, - 1/2::real] \<noteq> []" by simp
  have l2: "length [1/10, - 1/2::real] = 2" by simp
  have A: "\<exists>res plots. backtest_strategy (PyList [0, 0]) (PyList [1/10, - 1/2]) False = Inr (res, plots) \<and>
      series_std (strategy_returns (performance res)) = Some 0 \<and> sharpe_ratio res = None"
  proof -
    from sharpe_ratio_cases[OF len0 ne, of False] obtain res plots where
      run: "backtest_strategy (PyList [0, 0]) (PyList [1/10, - 1/2]) False = Inr (res, plots)" and
      iff: "series_std (strategy_returns (performance res)) = Some 0 \<longleftrightarrow>
         2 \<le> length [1/10, - 1/2::real] \<and> (\<forall>x\<in>set (strategy_returns (performance res)). x = 0)" and
      zero: "series_std (strategy_returns (performance res)) = Some 0 \<longrightarrow> sharpe_ratio res = None"
      by blast
    have "strategy_returns (performance res) = [0, 0]"
      using run by (auto simp: backtest_strategy_def Let_def shift1_def mul_series_def fillna_def
          fl_mul_def cumprod_def iloc_last_def)
    then have "series_std (strategy_returns (performance res)) = Some 0"
      using iff by simp
    then show ?thesis using run zero by blast
  qed
  have B: "\<exists>res plots. backtest_strategy (PyList [1, 1]) (PyList [1/10, - 1/2]) False = Inr (res, plots) \<and>
      series_std (strategy_returns (performance res)) = Some (sqrt (1/8)) \<and>
      sqrt (1/8) \<noteq> 0 \<and>
      sharpe_ratio res = Some ((- 1/2) / 2 / sqrt (1/8) * sqrt 252)"
  proof -
    from sharpe_ratio_cases[OF len1 ne, of False] obtain res plots where
      run: "backtest_strategy (PyList [1, 1]) (PyList [1/10, - 1/2]) False = Inr (res, plots)" and
      num: "\<forall>sd. series_std (strategy_returns (performance res)) = Some sd \<and> sd \<noteq> 0 \<longrightarrow>
         sharpe_ratio res =
           Some (sum_list (strategy_returns (performance res)) / real (length [1/10, - 1/2::real])
                 / sd * sqrt 252)"
      by blast
    have sr: "strategy_returns (performance res) = [0, - 1/2]"
      by (rule two_row_run(1)[OF run])
    have sd: "series_std (strategy_returns (performance res)) = Some (sqrt (1/8))"
      by (simp add: sr series_std_def power2_eq_square)
    have nz: "sqrt (1/8) \<noteq> 0" by simp
    from num[rule_format, of "sqrt (1/8)"] sd nz
    have "sharpe_ratio res =
        Some (sum_list (strategy_returns (performance res)) / real (length [1/10, - 1/2::real])
              / sqrt (1/8) * sqrt 252)" by blast
    then have "sharpe_ratio res = Some ((- 1/2) / 2 / sqrt (1/8) * sqrt 252)"
      by (simp add: sr)
    then show ?thesis using run sd nz by blast
  qed
  show ?thesis using len0 ne A B by blast
qed

text \<open>
  C4. For non-empty equal-length lists the run succeeds; with \<open>running_max[i]\<close> the maximum
  of \<open>cumulative_return[0..i]\<close>, which is positive, the drawdown at \<open>i\<close> is
  \<open>(cumulative_return[i] - running_max[i]) / running_max[i]\<close>, it is never positive, and
  the maximum drawdown returned is the minimum of the drawdown series. The drawdown series
  is the one handed to the plot when charts are requested.
\<close>

theorem drawdown_formula:
  assumes "length s = length r" and "r \<noteq> []"
  shows "\<exists>res plots. backtest_strategy (PyList s) (PyList r) p = Inr (res, plots) \<and>
    (p \<longrightarrow> plots = [(cumulative_returns (performance res),
                      drawdown_series (cumulative_returns (performance res)))]) \<and>
    length (drawdown_series (cumulative_returns (performance res))) = length r \<and>
    (\<forall>i<length r.
       0 < Max ((!) (cumulative_returns (performance res)) ` {..i}) \<and>
       drawdown_series (cumulative_returns (performance res)) ! i =
         Some ((cumulative_returns (performance res) ! i
                 - Max ((!) (cumulative_returns (performance res)) ` {..i}))
               / Max ((!) (cumulative_returns (performance res)) ` {..i})) \<and>
       (cumulative_returns (performance res) ! i
          - Max ((!) (cumulative_returns (performance res)) ` {..i}))
        / Max ((!) (cumulative_returns (performance res)) ` {..i}) \<le> 0) \<and>
    max_drawdown res =
      Some (Min ((\<lambda>i. (cumulative_returns (performance res) ! i
                        - Max ((!) (cumulative_returns (performance res)) ` {..i}))
                      / Max ((!) (cumulative_returns (performance res)) ` {..i}))
                 ` {..<length r}))"
proof -
  from backtest_strategy_lists[OF assms, of p] obtain res plots where
    run: "backtest_strategy (PyList s) (PyList r) p = Inr (res, plots)" and
    sr: "strategy_returns (performance res) = 0 # map2 (*) (butlast s) (tl r)" by blast
  let ?cr = "cumulative_returns (performance res)"
  let ?M = "\<lambda>i. Max ((!) ?cr ` {..i})"
  let ?d = "\<lambda>i. (?cr ! i - ?M i) / ?M i"
  have cr: "?cr = cumprod (map (\<lambda>x. 1 + x) (strategy_returns (performance res)))"
    by (rule backtest_strategy_Inr(2)[OF run])
  have len: "length ?cr = length r"
    using assms by (simp add: cr sr length_cumprod)
  have M: "cummax ?cr ! i = ?M i" if "i < length r" for i
    using that len by (simp add: cummax_nth)
  have dd: "drawdown_series ?cr = map Some (map ?d [0..<length r])"
    using drawdown_of_run[OF run] M len by simp
  have plots: "p \<longrightarrow> plots = [(?cr, drawdown_series ?cr)]"
    using backtest_strategy_Inr(8)[OF run] by simp
  have pos: "0 < ?M i" if "i < length r" for i
    using running_max_ge_one[OF run, of i] that len M[OF that] by simp
  have le: "?d i \<le> 0" if "i < length r" for i
  proof -
    have "?cr ! i \<le> ?M i" using cummax_ge_self[of i ?cr] that len M[OF that] by simp
    then show ?thesis using pos[OF that] by (simp add: divide_le_0_iff)
  qed
  have "max_drawdown res = series_min (drawdown_series ?cr)"
    by (rule backtest_strategy_Inr(6)[OF run])
  also have "\<dots> = Some (Min (set (map ?d [0..<length r])))"
    unfolding dd using assms(2) by (intro series_min_all_Some) simp
  also have "set (map ?d [0..<length r]) = ?d ` {..<length r}"
    by (simp add: atLeast0LessThan)
  finally have mdd: "max_drawdown res = Some (Min (?d ` {..<length r}))" .
  have cells: "\<forall>i<length r. 0 < ?M i \<and> drawdown_series ?cr ! i = Some (?d i) \<and> ?d i \<le> 0"
    using pos le by (simp add: dd)
  have dlen: "length (drawdown_series ?cr) = length r"
    by (simp add: drawdown_series_length len)
  show ?thesis using run plots dlen cells mdd by blast
qed

theorem drawdown_formula_witness:
  "length [1, 1::real] = length [1/10, - 1/2::real] \<and> [1/10, - 1/2::real] \<noteq> [] \<and>
   (\<exists>res plots. backtest_strategy (PyList [1, 1]) (PyList [1/10, - 1/2]) True = Inr (res, plots) \<and>
      plots = [([1, 1/2], [Some 0, Some (- 1/2)])] \<and>
      max_drawdown res = Some (- 1/2))"
proof -
  have len: "length [1, 1::real] = length [1/10, - 1/2::real]" by simp
  have ne: "[1/10, - 1/2::real] \<noteq> []" by simp
  from drawdown_formula[OF len ne, of True] obtain res plots where
    run: "backtest_strategy (PyList [1, 1]) (PyList [1/10, - 1/2]) True = Inr (res, plots)" and
    plots': "True \<longrightarrow> plots = [(cumulative_returns (performance res),
                      drawdown_series (cumulative_returns (performance res)))]" and
    dlen': "length (drawdown_series (cumulative_returns (performance res)))
              = length [1/10, - 1/2::real]" and
    cells': "\<forall>i<length [1/10, - 1/2::real].
       0 < Max ((!) (cumulative_returns (performance res)) ` {..i}) \<and>
       drawdown_series (cumulative_returns (performance res)) ! i =
         Some ((cumulative_returns (performance res) ! i
                 - Max ((!) (cumulative_returns (performance res)) ` {..i}))
               / Max ((!) (cumulative_returns (performance res)) ` {..i})) \<and>
       (cumulative_returns (performance res) ! i
          - Max ((!) (cumulative_returns (performance res)) ` {..i}))
        / Max ((!) (cumulative_returns (performance res)) ` {..i}) \<le> 0" and
    mdd': "max_drawdown res =
      Some (Min ((\<lambda>i. (cumulative_returns (performance res) ! i
                        - Max ((!) (cumulative_returns (performance res)) ` {..i}))
                      / Max ((!) (cumulative_returns (performance res)) ` {..i}))
                 ` {..<length [1/10, - 1/2::real]}))"
    by blast
  have plots: "plots = [(cumulative_returns (performance res),
                      drawdown_series (cumulative_returns (performance res)))]"
    using plots' by simp
  have dlen: "length (drawdown_series (cumulative_returns (performance res))) = 2"
    using dlen' by simp
  have cells: "\<forall>i<2. drawdown_series (cumulative_returns (performance res)) ! i =
         Some ((cumulative_returns (performance res) ! i
                 - Max ((!) (cumulative_returns (performance res)) ` {..i}))
               / Max ((!) (cumulative_returns (performance res)) ` {..i}))"
    using cells' by simp
  have l2': "length [1/10, - 1/2::real] = 2" by simp
  have mdd: "max_drawdown res =
      Some (Min ((\<lambda>i. (cumulative_returns (performance res) ! i
                        - Max ((!) (cumulative_returns (performance res)) ` {..i}))
                      / Max ((!) (cumulative_returns (performance res)) ` {..i}))
                 ` {..<2}))"
    using mdd' unfolding l2' .
  have cr: "cumulative_returns (performance res) = [1, 1/2]"
    by (rule two_row_run(2)[OF run])
  have a1: "{..Suc 0} = {0, Suc 0}" and l2: "{..<2::nat} = {0, Suc 0}"
    by auto
  have d0: "drawdown_series (cumulative_returns (performance res)) ! 0 = Some 0"
    using cells[rule_format, of 0] by (simp add: cr)
  have d1: "drawdown_series (cumulative_returns (performance res)) ! 1 = Some (- 1/2)"
    using cells[rule_format, of 1] by (simp add: cr a1)
  have dd: "drawdown_series (cumulative_returns (performance res)) = [Some 0, Some (- 1/2)]"
    using dlen d0 d1 by (intro nth_equalityI) (auto simp: less_Suc_eq numeral_2_eq_2)
  have m: "max_drawdown res = Some (- 1/2)"
    unfolding mdd l2 by (simp add: cr a1)
  show ?thesis using run plots dd m cr by simp
qed

text \<open>
  C5. For non-empty all-zero signals and returns of the same length the run succeeds with
  strategy returns all zero, cumulative returns all one, maximum drawdown zero and total
  P&L zero.
\<close>

theorem all_zero_signals:
  assumes "length s = length r" and "r \<noteq> []" and "\<forall>x\<in>set s. x = 0"
  shows "\<exists>res plots. backtest_strategy (PyList s) (PyList r) p = Inr (res, plots) \<and>
    strategy_returns (performance res) = replicate (length r) 0 \<and>
    cumulative_returns (performance res) = replicate (length r) 1 \<and>
    max_drawdown res = Some 0 \<and>
    total_pnl res = 0"
proof -
  from backtest_strategy_lists[OF assms(1,2), of p] obtain res plots where
    run: "backtest_strategy (PyList s) (PyList r) p = Inr (res, plots)" and
    sr0: "strategy_returns (performance res) = 0 # map2 (*) (butlast s) (tl r)" by blast
  obtain n where n: "length r = Suc n" using assms(2) by (cases r) auto
  have "map2 (*) (butlast s) (tl r) = replicate n 0"
    using zero_signal_products[OF assms(3), of "tl r"] assms(1) n by simp
  then have sr: "strategy_returns (performance res) = replicate (length r) 0"
    using sr0 n by simp
  have cr: "cumulative_returns (performance res) = replicate (length r) 1"
    using backtest_strategy_Inr(2)[OF run] by (simp add: sr cumprod_def cumprod_from_ones)
  have "drawdown_series (replicate (length r) 1) = map Some (replicate (length r) 0)"
    by (simp add: drawdown_series_def cummax_const sub_series_def div_series_def real_div_def
        zip_replicate map_replicate)
  then have "max_drawdown res = Some (Min (set (replicate (length r) (0::real))))"
    using backtest_strategy_Inr(6)[OF run] series_min_all_Some[of "replicate (length r) 0"] n
    by (simp add: cr)
  moreover have "set (replicate (length r) (0::real)) = {0}" using n by auto
  ultimately have mdd: "max_drawdown res = Some 0" by simp
  have pnl: "total_pnl res = 0"
    using backtest_strategy_Inr(4)[OF run] by (simp add: sr sum_list_replicate)
  show ?thesis using run sr cr mdd pnl by blast
qed

theorem all_zero_signals_witness:
  "length [0, 0::real] = length [1/10, - 1/2::real] \<and> [1/10, - 1/2::real] \<noteq> [] \<and>
   0 = (0::real) \<and>
   (\<exists>res plots. backtest_strategy (PyList [0, 0]) (PyList [1/10, - 1/2]) False = Inr (res, plots) \<and>
      strategy_returns (performance res) = [0, 0] \<and>
      cumulative_returns (performance res) = [1, 1] \<and>
      max_drawdown res = Some 0 \<and> total_pnl res = 0)"
proof -
  have len: "length [0, 0::real] = length [1/10, - 1/2::real]" by simp
  have ne: "[1/10, - 1/2::real] \<noteq> []" by simp
  have z: "\<forall>x\<in>set [0, 0::real]. x = 0" by simp
  have r2: "replicate (length [1/10, - 1/2::real]) c = [c, c]" for c :: real
    by (simp add: numeral_2_eq_2)
  show ?thesis using all_zero_signals[OF len ne z, of False] unfolding r2 by simp
qed

text \<open>
  C6 (as stated, refuted). Reversing both series is one permutation applied to both; on
  signals \<open>[1, 0]\<close> and returns \<open>[0.1, 0.5]\<close> it changes total P&L and final cumulative
  return from \<open>0.5\<close> to \<open>0\<close>.
\<close>

theorem reorder_rows_counterexample:
  "map_sum id (total_pnl \<circ> fst)
     (backtest_strategy (PyList [1, 0]) (PyList [1/10, 1/2]) False) = Inr (1/2) \<and>
   map_sum id (total_pnl \<circ> fst)
     (backtest_strategy (PyList (rev [1, 0])) (PyList (rev [1/10, 1/2])) False) = Inr 0 \<and>
   map_sum id (cumulative_return \<circ> fst)
     (backtest_strategy (PyList [1, 0]) (PyList [1/10, 1/2]) False) = Inr (1/2) \<and>
   map_sum id (cumulative_return \<circ> fst)
     (backtest_strategy (PyList (rev [1, 0])) (PyList (rev [1/10, 1/2])) False) = Inr 0"
  by (simp add: backtest_strategy_def Let_def shift1_def mul_series_def fillna_def fl_mul_def
      cumprod_def iloc_last_def)

text \<open>
  C6 (amended). Total P&L and final cumulative return depend only on the collection of
  lag-aligned rows \<open>(signal[i-1], return[i])\<close>, \<open>i \<ge> 1\<close>: two non-empty equal-length inputs
  whose lag-aligned rows are permutations of each other have the same total P&L and the
  same final cumulative return.
\<close>

theorem reorder_lagged_rows:
  assumes "length s = length r" and "r \<noteq> []"
    and "length s' = length r'" and "r' \<noteq> []"
    and "mset (zip (butlast s) (tl r)) = mset (zip (butlast s') (tl r'))"
  shows "\<exists>res plots res' plots'.
    backtest_strategy (PyList s) (PyList r) p = Inr (res, plots) \<and>
    backtest_strategy (PyList s') (PyList r') p = Inr (res', plots') \<and>
    total_pnl res = total_pnl res' \<and>
    cumulative_return res = cumulative_return res'"
proof -
  from totals_over_lagged_rows[OF assms(1,2), of p] obtain res plots where
    a: "backtest_strategy (PyList s) (PyList r) p = Inr (res, plots)"
       "total_pnl res = sum_mset (image_mset (\<lambda>(a, b). a * b) (mset (zip (butlast s) (tl r))))"
       "cumulative_return res =
          prod_mset (image_mset (\<lambda>(a, b). 1 + a * b) (mset (zip (butlast s) (tl r)))) - 1"
    by blast
  from totals_over_lagged_rows[OF assms(3,4), of p] obtain res' plots' where
    b: "backtest_strategy (PyList s') (PyList r') p = Inr (res', plots')"
       "total_pnl res' = sum_mset (image_mset (\<lambda>(a, b). a * b) (mset (zip (butlast s') (tl r'))))"
       "cumulative_return res' =
          prod_mset (image_mset (\<lambda>(a, b). 1 + a * b) (mset (zip (butlast s') (tl r')))) - 1"
    by blast
  have "total_pnl res = total_pnl res'" using a(2) b(2) assms(5) by simp
  moreover have "cumulative_return res = cumulative_return res'" using a(3) b(3) assms(5) by simp
  ultimately show ?thesis using a(1) b(1) by blast
qed

theorem reorder_lagged_rows_witness:
  "length [1, 2, 3::real] = length [1/10, 1/5, 3/10::real] \<and> [1/10, 1/5, 3/10::real] \<noteq> [] \<and>
   length [2, 1, 0::real] = length [7, 3/10, 1/5::real] \<and> [7, 3/10, 1/5::real] \<noteq> [] \<and>
   mset (zip (butlast [1, 2, 3::real]) (tl [1/10, 1/5, 3/10::real]))
     = mset (zip (butlast [2, 1, 0::real]) (tl [7, 3/10, 1/5::real])) \<and>
   (\<exists>res plots res' plots'.
      backtest_strategy (PyList [1, 2, 3]) (PyList [1/10, 1/5, 3/10]) False = Inr (res, plots) \<and>
      backtest_strategy (PyList [2, 1, 0]) (PyList [7, 3/10, 1/5]) False = Inr (res', plots') \<and>
      total_pnl res = total_pnl res' \<and>
      cumulative_return res = cumulative_return res')"
proof -
  have l1: "length [1, 2, 3::real] = length [1/10, 1/5, 3/10::real]" by simp
  have n1: "[1/10, 1/5, 3/10::real] \<noteq> []" by simp
  have l2: "length [2, 1, 0::real] = length [7, 3/10, 1/5::real]" by simp
  have n2: "[7, 3/10, 1/5::real] \<noteq> []" by simp
  have m: "mset (zip (butlast [1, 2, 3::real]) (tl [1/10, 1/5, 3/10::real]))
     = mset (zip (butlast [2, 1, 0::real]) (tl [7, 3/10, 1/5::real]))"
    by (simp add: add_mset_commute)
  show ?thesis using l1 n1 l2 n2 m reorder_lagged_rows[OF l1 n1 l2 n2 m, of False] by blast
qed

text \<open>
  C7 (as stated, refuted). Two lists of lengths 2 and 3 make the table constructor raise
  ValueError. Two Series of lengths 2 and 3 give a table of 3 rows, whose last strategy
  return is \<open>signal[1] * return[2]\<close>: nothing is truncated to the common prefix of 2 rows.
\<close>

theorem mismatched_lengths_counterexample:
  "backtest_strategy (PyList [1, 1]) (PyList [1/10, 1/5, 3/10]) False = Inl ValueError \<and>
   map_sum id (strategy_returns \<circ> performance \<circ> fst)
     (backtest_strategy (PdSeries [1, 1]) (PdSeries [1/10, 1/5, 3/10]) False)
     = Inr [0, 1/5, 3/10]"
  by (simp add: backtest_strategy_def Let_def pad_def shift1_def mul_series_def fillna_def
      fl_mul_def cumprod_def iloc_last_def)

text \<open>
  C7 (amended). When the signal and the returns sequence have different lengths: given as
  lists (or a list beside a Series) the table constructor raises ValueError and the run
  returns nothing; given as two Series with the default index the run raises nothing and
  truncates nothing: the table has as many rows as the longer series, the shorter column
  is padded with NaN, and the strategy return of a row is \<open>signal[i-1] * return[i]\<close>
  where both cells exist and \<open>0\<close> elsewhere.
\<close>

theorem mismatched_lengths:
  assumes "length s \<noteq> length r"
  shows "backtest_strategy (PyList s) (PyList r) p = Inl ValueError \<and>
    backtest_strategy (PdSeries s) (PyList r) p = Inl ValueError \<and>
    backtest_strategy (PyList s) (PdSeries r) p = Inl ValueError \<and>
    (\<exists>res plots. backtest_strategy (PdSeries s) (PdSeries r) p = Inr (res, plots) \<and>
       signals (performance res) = pad (max (length s) (length r)) s \<and>
       returns (performance res) = pad (max (length s) (length r)) r \<and>
       length (strategy_returns (performance res)) = max (length s) (length r) \<and>
       (\<forall>i<max (length s) (length r).
          strategy_returns (performance res) ! i =
            (if 0 < i \<and> i - 1 < length s \<and> i < length r then s ! (i - 1) * r ! i else 0)))"
proof (intro conjI)
  show "backtest_strategy (PyList s) (PyList r) p = Inl ValueError"
    and "backtest_strategy (PdSeries s) (PyList r) p = Inl ValueError"
    and "backtest_strategy (PyList s) (PdSeries r) p = Inl ValueError"
    using assms by (auto simp: backtest_strategy_def)
  let ?n = "max (length s) (length r)"
  let ?sg = "pad ?n s" and ?rt = "pad ?n r"
  let ?sr = "fillna 0 (mul_series (shift1 ?sg) ?rt)"
  have n: "0 < ?n" using assms by auto
  have lens: "length ?sg = ?n" "length ?rt = ?n" by (simp_all add: length_pad)
  have len_sr: "length ?sr = ?n"
    by (simp add: fillna_def mul_series_def length_shift1 lens)
  then have "cumprod (map (\<lambda>x. 1 + x) ?sr) \<noteq> []"
    using n by (auto simp: cumprod_def dest!: arg_cong[where f = length]
        simp: length_cumprod_from)
  then obtain res plots where
    run: "backtest_strategy (PdSeries s) (PdSeries r) p = Inr (res, plots)"
    by (auto simp: backtest_strategy_def Let_def iloc_last_def)
  from backtest_strategy_Inr(1)[OF run]
  have cols: "signals (performance res) = ?sg" "returns (performance res) = ?rt"
    "strategy_returns (performance res) = ?sr"
    by (auto simp: Let_def)
  have cell: "?sr ! i = (if 0 < i \<and> i - 1 < length s \<and> i < length r then s ! (i - 1) * r ! i else 0)"
    if i: "i < ?n" for i
  proof -
    have "?sr ! i = (case fl_mul (if i = 0 then None else ?sg ! (i - 1)) (?rt ! i)
                     of None \<Rightarrow> 0 | Some y \<Rightarrow> y)"
      using i lens by (intro strategy_returns_nth) simp_all
    moreover have "?rt ! i = (if i < length r then Some (r ! i) else None)"
      using i by (intro pad_nth) simp_all
    moreover have "?sg ! (i - 1) = (if i - 1 < length s then Some (s ! (i - 1)) else None)"
      using i by (intro pad_nth) simp_all
    ultimately show ?thesis by (simp add: fl_mul_def)
  qed
  show "\<exists>res plots. backtest_strategy (PdSeries s) (PdSeries r) p = Inr (res, plots) \<and>
       signals (performance res) = ?sg \<and> returns (performance res) = ?rt \<and>
       length (strategy_returns (performance res)) = ?n \<and>
       (\<forall>i<?n. strategy_returns (performance res) ! i =
            (if 0 < i \<and> i - 1 < length s \<and> i < length r then s ! (i - 1) * r ! i else 0))"
    using run cols len_sr cell by auto
qed

theorem mismatched_lengths_witness:
  "length [1, 1::real] \<noteq> length [1/10, 1/5, 3/10::real] \<and>
   backtest_strategy (PyList [1, 1]) (PyList [1/10, 1/5, 3/10]) True = Inl ValueError \<and>
   (\<exists>res plots. backtest_strategy (PdSeries [1, 1]) (PdSeries [1/10, 1/5, 3/10]) True
        = Inr (res, plots) \<and>
      length (strategy_returns (performance res)) = 3 \<and>
      strategy_returns (performance res) ! 2 = 1 * (3/10))"
proof -
  have ne: "length [1, 1::real] \<noteq> length [1/10, 1/5, 3/10::real]" by simp
  have mx: "max (length [1, 1::real]) (length [1/10, 1/5, 3/10::real]) = 3" by simp
  from mismatched_lengths[OF ne, of True, unfolded mx] obtain res plots where
    lists: "backtest_strategy (PyList [1, 1]) (PyList [1/10, 1/5, 3/10]) True = Inl ValueError" and
    run: "backtest_strategy (PdSeries [1, 1]) (PdSeries [1/10, 1/5, 3/10]) True = Inr (res, plots)" and
    len: "length (strategy_returns (performance res)) = 3" and
    cells: "\<forall>i<3. strategy_returns (performance res) ! i =
            (if 0 < i \<and> i - 1 < length [1, 1::real] \<and> i < length [1/10, 1/5, 3/10::real]
             then [1, 1] ! (i - 1) * [1/10, 1/5, 3/10] ! i else 0)"
    by blast
  have "strategy_returns (performance res) ! 2 = 1 * (3/10)"
    using cells[rule_format, of 2] by simp
  then show ?thesis using ne lists run len by blast
qed

text \<open>
  C8. In every result, if every strategy return up to position \<open>i\<close> is above \<open>-1\<close>, the
  cumulative return at \<open>i\<close> is not negative.
\<close>

theorem cumulative_return_nonneg:
  assumes "backtest_strategy a b p = Inr (res, plots)"
    and "i < length (cumulative_returns (performance res))"
    and "\<forall>k\<le>i. - 1 < strategy_returns (performance res) ! k"
  shows "0 \<le> cumulative_returns (performance res) ! i"
proof -
  let ?sr = "strategy_returns (performance res)"
  have cr: "cumulative_returns (performance res) = cumprod (map (\<lambda>x. 1 + x) ?sr)"
    by (rule backtest_strategy_Inr(2)[OF assms(1)])
  have i: "i < length ?sr" using assms(2) by (simp add: cr length_cumprod)
  have "cumulative_returns (performance res) ! i = (\<Prod>k\<le>i. map (\<lambda>x. 1 + x) ?sr ! k)"
    using i by (simp add: cr cumprod_nth)
  also have "\<dots> = (\<Prod>k\<le>i. 1 + ?sr ! k)"
    using i by (intro prod.cong) auto
  also have "0 \<le> \<dots>"
  proof (rule prod_nonneg)
    fix k assume "k \<in> {..i}"
    then have "- 1 < ?sr ! k" using assms(3) by simp
    then show "0 \<le> 1 + ?sr ! k" by simp
  qed
  finally show ?thesis .
qed

theorem cumulative_return_nonneg_witness:
  "\<exists>res plots. backtest_strategy (PyList [1, 1]) (PyList [1/10, - 1/2]) False = Inr (res, plots) \<and>
     (1::nat) < length (cumulative_returns (performance res)) \<and>
     - 1 < strategy_returns (performance res) ! 0 \<and>
     - 1 < strategy_returns (performance res) ! 1 \<and>
     0 \<le> cumulative_returns (performance res) ! 1"
proof -
  obtain res plots where
    run: "backtest_strategy (PyList [1, 1]) (PyList [1/10, - 1/2]) False = Inr (res, plots)"
    using backtest_strategy_lists[of "[1, 1]" "[1/10, - 1/2]" False] by auto
  have len: "(1::nat) < length (cumulative_returns (performance res))"
    by (simp add: two_row_run(2)[OF run])
  have s0: "- 1 < strategy_returns (performance res) ! 0"
    and s1: "- 1 < strategy_returns (performance res) ! 1"
    by (simp_all add: two_row_run(1)[OF run])
  have "\<forall>k\<le>1. - 1 < strategy_returns (performance res) ! k"
    using s0 s1 by (auto simp: le_Suc_eq)
  from cumulative_return_nonneg[OF run len this]
  have "0 \<le> cumulative_returns (performance res) ! 1" .
  with run len s0 s1 show ?thesis by blast
qed

text \<open>
  C9. If the provider returns zero rows, or its call raises an exception, the fetch prints
  one diagnostic line ("No data for ..." or "Error fetching data for ...: ...") and returns
  None; nothing propagates to the caller.
\<close>

theorem fetch_failure_paths:
  assumes "yf_download ticker start_date end_date = Returned [] \<or>
           (\<exists>e. yf_download ticker start_date end_date = Raised e)"
  shows "\<exists>msg. fetch_stock_data yf_download ticker start_date end_date = ([msg], Result None) \<and>
     (yf_download ticker start_date end_date = Returned [] \<longrightarrow> msg = ''No data for '' @ ticker) \<and>
     (\<forall>e. yf_download ticker start_date end_date = Raised e \<longrightarrow>
        msg = ''Error fetching data for '' @ ticker @ '': '' @ e)"
  using assms by (auto simp: fetch_stock_data_def)

theorem fetch_failure_paths_witness:
  "(\<exists>msg. fetch_stock_data (\<lambda>t (a::nat) b. (Returned [] :: nat download)) ''ABC'' 1 2
            = ([msg], Result None) \<and> msg = ''No data for ABC'') \<and>
   (\<exists>msg. fetch_stock_data (\<lambda>t (a::nat) b. (Raised ''timeout'' :: nat download)) ''ABC'' 1 2
            = ([msg], Result None) \<and> msg = ''Error fetching data for ABC: timeout'')"
proof -
  have A: "\<exists>msg. fetch_stock_data (\<lambda>t (a::nat) b. (Returned [] :: nat download)) ''ABC'' 1 2
            = ([msg], Result None) \<and> msg = ''No data for ABC''"
    using fetch_failure_paths[of "\<lambda>t (a::nat) b. (Returned [] :: nat download)" "''ABC''" 1 2]
    by simp
  have B: "\<exists>msg. fetch_stock_data (\<lambda>t (a::nat) b. (Raised ''timeout'' :: nat download)) ''ABC'' 1 2
            = ([msg], Result None) \<and> msg = ''Error fetching data for ABC: timeout''"
    using fetch_failure_paths[of "\<lambda>t (a::nat) b. (Raised ''timeout'' :: nat download)" "''ABC''" 1 2]
    by simp
  show ?thesis using A B by (rule conjI)
qed

text \<open>
  C10. On empty lists the run returns no result: reading the last cumulative return raises
  IndexError. Among equal-length lists, the run returns a result exactly for the non-empty
  ones.
\<close>

theorem empty_input_raises:
  "backtest_strategy (PyList []) (PyList []) p = Inl IndexError \<and>
   (\<forall>s r. length s = length r \<longrightarrow>
      ((\<exists>res plots. backtest_strategy (PyList s) (PyList r) p = Inr (res, plots)) \<longleftrightarrow> r \<noteq> []))"
proof (intro conjI allI impI)
  show e: "backtest_strategy (PyList []) (PyList []) p = Inl IndexError"
    by (simp add: backtest_strategy_def Let_def shift1_def mul_series_def fillna_def
        cumprod_def iloc_last_def)
  fix s r :: "real list"
  assume len: "length s = length r"
  show "(\<exists>res plots. backtest_strategy (PyList s) (PyList r) p = Inr (res, plots)) \<longleftrightarrow> r \<noteq> []"
  proof (cases "r = []")
    case True
    then show ?thesis using len e by simp
  next
    case False
    then show ?thesis using backtest_strategy_lists[OF len False, of p] by blast
  qed
qed

theorem empty_input_raises_witness:
  "backtest_strategy (PyList []) (PyList []) True = Inl IndexError \<and>
   length [1::real] = length [1/10::real] \<and>
   (\<exists>res plots. backtest_strategy (PyList [1]) (PyList [1/10]) True = Inr (res, plots))"
  using empty_input_raises[of True] by simp

end
